theory Spec2Isabelle
  imports Main "HOL-Library.Word"
begin

section \<open>Data model\<close>

subsection \<open>database/sql null wrappers and the Task row (backend/database/models.go)\<close>

text \<open>
  Go strings are byte sequences; \<^typ>\<open>string\<close> is a list of 8-bit characters.
  The zero value of a Go struct has every field at its own zero value; the
  definitions \<open>zero_...\<close> below write these zero values out.
\<close>

record NullString =
  String :: string
  Valid :: bool

record NullTime =
  Time :: int
  Time_Valid :: bool

record NullInt64 =
  Int64 :: "64 word"
  Int64_Valid :: bool

record Task =
  ID :: "64 word"
  CreatedAt :: NullTime
  UpdatedAt :: NullTime
  Type :: NullString
  Status :: NullString
  Args :: NullString
  Results :: NullString
  Message :: NullString
  FlowID :: NullInt64
  ToolCallID :: NullString

definition zero_NullString :: NullString where
  "zero_NullString = \<lparr>String = [], Valid = False\<rparr>"

definition zero_NullTime :: NullTime where
  "zero_NullTime = \<lparr>Time = 0, Time_Valid = False\<rparr>"

definition zero_NullInt64 :: NullInt64 where
  "zero_NullInt64 = \<lparr>Int64 = 0, Int64_Valid = False\<rparr>"

definition zero_Task :: Task where
  "zero_Task = \<lparr>ID = 0, CreatedAt = zero_NullTime, UpdatedAt = zero_NullTime,
     Type = zero_NullString, Status = zero_NullString, Args = zero_NullString,
     Results = zero_NullString, Message = zero_NullString, FlowID = zero_NullInt64,
     ToolCallID = zero_NullString\<rparr>"

text \<open>
  Modelled from the spec: \<open>database.StringToNullString\<close> is called by the
  constructors but its body is not among the sources. The specification
  describes the constructors as setting the field to the given text
  (\<open>type = call.tool\<close>, \<open>args = "{}"\<close>); the helper is therefore taken to wrap its
  argument unchanged and mark the value as valid. This package only ever reads
  the \<open>String\<close> component.
\<close>

definition StringToNullString :: "string \<Rightarrow> NullString" where
  "StringToNullString s = \<lparr>String = s, Valid = True\<rparr>"

subsection \<open>Conversation turns (langchaingo llms / schema)\<close>

datatype ChatMessageType =
  ChatMessageTypeAI
| ChatMessageTypeHuman
| ChatMessageTypeSystem
| ChatMessageTypeGeneric
| ChatMessageTypeFunction
| ChatMessageTypeTool

record FunctionCall =
  Name :: string
  Arguments :: string

record ToolCall =
  Call_ID :: string
  Call_Type :: string
  FunctionCall :: FunctionCall

record ToolCallResponse =
  Resp_ToolCallID :: string
  Resp_Name :: string
  Content :: string

datatype ContentPart =
  TextContent string
| ToolCallPart ToolCall
| ToolCallResponsePart ToolCallResponse

definition TextPart :: "string \<Rightarrow> ContentPart" where
  "TextPart s = TextContent s"

record MessageContent =
  Role :: ChatMessageType
  Parts :: "ContentPart list"

record ContentChoice =
  Choice_Content :: string
  StopReason :: string
  ToolCalls :: "ToolCall list"

subsection \<open>Errors\<close>

text \<open>
  Every \<open>fmt.Errorf\<close> site of providers.go is one constructor, named after the
  failure it reports; the payload is what the format string interpolates.
  \<open>Error\<close> renders the message text the Go error carries.
\<close>

datatype error =
  UnknownProvider string
| ParseFailure string
| NoChoices
| NoToolCalls
| EmptyToolName
| UnmarshalArgsFailure string
| DecodeFailure error
| SerializationFailure string

fun Error :: "error \<Rightarrow> string" where
  "Error (UnknownProvider p) = ''unknown provider: '' @ p"
| "Error (ParseFailure t) = ''can't unmarshalCall '' @ t"
| "Error NoChoices = ''no choices found, asking user''"
| "Error NoToolCalls = ''no tool calls found, asking user''"
| "Error EmptyToolName = ''no tool name found, asking user''"
| "Error (UnmarshalArgsFailure e) = ''failed to unmarshal args: '' @ e"
| "Error (DecodeFailure err) = ''failed to extract args: '' @ Error err"
| "Error (SerializationFailure e) = ''failed to marshal terminal args, asking user: '' @ e"

section \<open>Provider factory\<close>

type_synonym ProviderType = string

definition ProviderOpenAI :: ProviderType where
  "ProviderOpenAI = ''openai''"

definition ProviderOllama :: ProviderType where
  "ProviderOllama = ''ollama''"

text \<open>
  \<open>OpenAIProvider\<close>, \<open>OllamaProvider\<close> and their \<open>New\<close> methods are declared in
  files that are not among the sources. The factory builds the zero value of
  the struct and calls \<open>New\<close> on it; whatever that call does, it does to the
  world outside the function (network, configuration, process state). The two
  calls are therefore parameters: each takes the state of the world and gives
  the provider it built together with the state it left. The factory threads
  the state: it is returned untouched on the branch that calls nothing.
\<close>

record ('p, 's) provider_impls =
  OpenAIProvider_New :: "'s \<Rightarrow> 'p \<times> 's"
  OllamaProvider_New :: "'s \<Rightarrow> 'p \<times> 's"

definition ProviderFactory ::
    "('p, 's) provider_impls \<Rightarrow> ProviderType \<Rightarrow> 's \<Rightarrow> (error + 'p) \<times> 's" where
  "ProviderFactory impls provider s =
     (if provider = ProviderOpenAI
      then (case OpenAIProvider_New impls s of (p, s') \<Rightarrow> (Inr p, s'))
      else if provider = ProviderOllama
      then (case OllamaProvider_New impls s of (p, s') \<Rightarrow> (Inr p, s'))
      else (Inl (UnknownProvider provider), s))"

text \<open>
  Modelled from the spec: the bodies of \<open>OpenAIProvider{}.New()\<close> and
  \<open>OllamaProvider{}.New()\<close> are missing from the sources. The specification
  says of the factory that it has "no network or state side effects beyond
  instantiating the zero-value provider"; accordingly each \<open>New\<close> gives the
  provider of its backend and leaves the state of the world as it found it.
\<close>

datatype Provider = OpenAIProvider | OllamaProvider

definition providers :: "(Provider, 's) provider_impls" where
  "providers = \<lparr>OpenAIProvider_New = (\<lambda>s. (OpenAIProvider, s)),
                 OllamaProvider_New = (\<lambda>s. (OllamaProvider, s))\<rparr>"

section \<open>Ask fallback\<close>

definition defaultAskTask :: "string \<Rightarrow> Task" where
  "defaultAskTask message =
     (let task = zero_Task\<lparr>Type := StringToNullString ''ask''\<rparr>;
          task = task\<lparr>Args := StringToNullString ''{}''\<rparr>;
          task = task\<lparr>Message := \<lparr>String = message @ ''. What should I do next?'',
                                     Valid = True\<rparr>\<rparr>
      in task)"

section \<open>Message translator\<close>

text \<open>
  One iteration of the \<open>for _, task := range tasks\<close> loop: three independent
  \<open>if\<close> statements, each appending to the slice built so far.
\<close>

definition appendTask :: "string \<Rightarrow> MessageContent list \<Rightarrow> Task \<Rightarrow> MessageContent list" where
  "appendTask prompt messages task =
     (let messages =
            (if String (Type task) = ''input''
             then messages @ [\<lparr>Role = ChatMessageTypeHuman, Parts = [TextPart prompt]\<rparr>]
             else messages);
          messages =
            (if String (ToolCallID task) \<noteq> []
             then (messages @
                    [\<lparr>Role = ChatMessageTypeAI,
                      Parts = [ToolCallPart
                        \<lparr>Call_ID = String (ToolCallID task),
                         Call_Type = ''function'',
                         FunctionCall = \<lparr>Name = String (Type task),
                                         Arguments = String (Args task)\<rparr>\<rparr>]\<rparr>]) @
                    [\<lparr>Role = ChatMessageTypeTool,
                      Parts = [ToolCallResponsePart
                        \<lparr>Resp_ToolCallID = String (ToolCallID task),
                         Resp_Name = String (Type task),
                         Content = String (Results task)\<rparr>]\<rparr>]
             else messages);
          messages =
            (if String (Type task) = ''ask'' \<and> String (ToolCallID task) = []
             then messages @ [\<lparr>Role = ChatMessageTypeAI,
                                Parts = [TextPart (String (Message task))]\<rparr>]
             else messages)
      in messages)"

definition tasksToMessages :: "Task list \<Rightarrow> string \<Rightarrow> MessageContent list" where
  "tasksToMessages tasks prompt =
     foldl (appendTask prompt)
       [\<lparr>Role = ChatMessageTypeSystem, Parts = [TextPart prompt]\<rparr>] tasks"

section \<open>Call parser and task constructors\<close>

subsection \<open>Argument shapes\<close>

text \<open>
  Modelled from the spec: the declarations of \<open>Call\<close> and \<open>AskArgs\<close> are in a file
  that is not among the sources. The specification gives \<open>Call\<close> as
  \<open>{tool: string, input: map<string,string>, message: string}\<close> and the Ask schema
  as carrying one optional \<open>message\<close> text; providers.go reads exactly \<open>c.Tool\<close>,
  \<open>c.Input\<close>, \<open>c.Message\<close> and \<open>params.Message\<close>.

  A Go map is either nil (\<open>None\<close>) or holds one value per key; it is kept as an
  association list with distinct keys.
\<close>

type_synonym gomap = "(string \<times> string) list option"

record Call =
  Tool :: string
  Input :: gomap
  Call_Message :: string

record AskArgs =
  Ask_Message :: string

subsection \<open>The encoding/json operations the package calls\<close>

text \<open>
  providers.go reaches the standard library's JSON codec at four call sites:
  \<open>json.Unmarshal\<close> into a fresh \<open>Call\<close>, \<open>json.Marshal\<close> of the call's input map,
  \<open>json.Unmarshal\<close> into a fresh \<open>AskArgs\<close> and \<open>json.Marshal\<close> of the decoded
  \<open>AskArgs\<close>. Each returns either an error (\<open>Inl\<close>, carrying the error's text) or
  its result (\<open>Inr\<close>). The package's functions take the four operations as a
  record, so that what is proved of them holds for whichever codec is linked;
  \<open>encoding_json\<close> further down is a model of Go's own.
\<close>

record json_lib =
  Unmarshal_Call :: "string \<Rightarrow> string + Call"
  Marshal_map :: "gomap \<Rightarrow> string + string"
  Unmarshal_AskArgs :: "string \<Rightarrow> string + AskArgs"
  Marshal_AskArgs :: "AskArgs \<Rightarrow> string + string"

subsection \<open>unmarshalCall, textToTask\<close>

text \<open>The \<open>log.Printf\<close> calls only write diagnostics and are left out.\<close>

definition unmarshalCall :: "json_lib \<Rightarrow> string \<Rightarrow> Call option" where
  "unmarshalCall lib input =
     (case Unmarshal_Call lib input of
        Inl err \<Rightarrow> None
      | Inr c \<Rightarrow> if Tool c \<noteq> [] then Some c else None)"

definition textToTask :: "json_lib \<Rightarrow> string \<Rightarrow> error + Task" where
  "textToTask lib text =
     (case unmarshalCall lib text of
        None \<Rightarrow> Inl (ParseFailure text)
      | Some c \<Rightarrow>
          (let task = zero_Task\<lparr>Type := StringToNullString (Tool c)\<rparr>
           in case Marshal_map lib (Input c) of
                Inl err \<Rightarrow>
                  Inr (defaultAskTask ''There was an error running the terminal command'')
              | Inr arg \<Rightarrow>
                  (let task = task\<lparr>Args := StringToNullString arg\<rparr>;
                       msg = Call_Message c;
                       msg = (if msg = [] then arg else msg);
                       task = task\<lparr>Message := StringToNullString msg\<rparr>;
                       task = task\<lparr>Status := StringToNullString ''in_progress''\<rparr>
                   in Inr task)))"

subsection \<open>extractToolArgs, toolToTask\<close>

definition extractToolArgs :: "(string \<Rightarrow> string + 'a) \<Rightarrow> string \<Rightarrow> error + 'a" where
  "extractToolArgs unmarshal functionArgs =
     (case unmarshal functionArgs of
        Inl err \<Rightarrow> Inl (UnmarshalArgsFailure err)
      | Inr args \<Rightarrow> Inr args)"

text \<open>
  \<open>choices\<close> is a slice of pointers and \<open>tool.FunctionCall\<close> is a pointer; the
  completion client that produces them stores no nil there, and the model
  keeps the values pointed to.
\<close>

definition toolToTask :: "json_lib \<Rightarrow> ContentChoice list \<Rightarrow> error + Task" where
  "toolToTask lib choices =
     (case choices of
        [] \<Rightarrow> Inl NoChoices
      | choice # _ \<Rightarrow>
          (case ToolCalls choice of
             [] \<Rightarrow> Inl NoToolCalls
           | tool # _ \<Rightarrow>
               (let task = zero_Task\<lparr>Type := StringToNullString (Name (FunctionCall tool))\<rparr>
                in if Name (FunctionCall tool) = [] then Inl EmptyToolName
                   else
                     (case extractToolArgs (Unmarshal_AskArgs lib) (Arguments (FunctionCall tool)) of
                        Inl err \<Rightarrow> Inl (DecodeFailure err)
                      | Inr params \<Rightarrow>
                          (case Marshal_AskArgs lib params of
                             Inl err \<Rightarrow> Inl (SerializationFailure err)
                           | Inr args \<Rightarrow>
                               (let task = task\<lparr>Args := StringToNullString args\<rparr>;
                                    msg = Ask_Message params;
                                    msg = (if msg = [] then Arguments (FunctionCall tool) else msg);
                                    task = task\<lparr>Message := StringToNullString msg\<rparr>;
                                    task = task\<lparr>Status := StringToNullString ''in_progress''\<rparr>;
                                    task = task\<lparr>ToolCallID := StringToNullString (Call_ID tool)\<rparr>
                                in Inr task))))))"

section \<open>A model of encoding/json\<close>

text \<open>
  The standard library is not part of the repository. What follows models
  \<open>json.Unmarshal\<close> and \<open>json.Marshal\<close> for the three Go types the package
  passes to them: the scanner's grammar (RFC 8259, nesting depth at most 10000),
  string unquoting (escapes, surrogate pairs, U+FFFD for invalid UTF-8),
  decoding into struct fields by case-folded key with the first type mismatch
  reported as the error, and the encoder's escaping (HTML-safe, as
  \<open>json.Marshal\<close> sets it; backspace and form feed as in Go 1.22). The texts
  of the library's errors are abbreviated.
\<close>

subsection \<open>Bytes and UTF-8\<close>

definition byte :: "char \<Rightarrow> nat" where
  "byte c = of_char c"

definition is_cont :: "nat \<Rightarrow> bool" where
  "is_cont b = (128 \<le> b \<and> b \<le> 191)"

text \<open>
  Length of the well-formed UTF-8 sequence that starts the byte list, or 0
  when its first byte starts none (the case in which \<open>utf8.DecodeRune\<close> returns
  \<open>RuneError\<close> with width 1).
\<close>

fun utf8_len :: "nat list \<Rightarrow> nat" where
  "utf8_len [] = 0"
| "utf8_len [b0] = (if b0 < 128 then 1 else 0)"
| "utf8_len [b0, b1] =
     (if b0 < 128 then 1 else if 194 \<le> b0 \<and> b0 \<le> 223 \<and> is_cont b1 then 2 else 0)"
| "utf8_len [b0, b1, b2] =
     (if b0 < 128 then 1
      else if 194 \<le> b0 \<and> b0 \<le> 223 \<and> is_cont b1 then 2
      else if b0 = 224 \<and> 160 \<le> b1 \<and> b1 \<le> 191 \<and> is_cont b2 then 3
      else if (225 \<le> b0 \<and> b0 \<le> 236 \<or> b0 = 238 \<or> b0 = 239) \<and> is_cont b1 \<and> is_cont b2 then 3
      else if b0 = 237 \<and> 128 \<le> b1 \<and> b1 \<le> 159 \<and> is_cont b2 then 3
      else 0)"
| "utf8_len (b0 # b1 # b2 # b3 # _) =
     (if b0 < 128 then 1
      else if 194 \<le> b0 \<and> b0 \<le> 223 \<and> is_cont b1 then 2
      else if b0 = 224 \<and> 160 \<le> b1 \<and> b1 \<le> 191 \<and> is_cont b2 then 3
      else if (225 \<le> b0 \<and> b0 \<le> 236 \<or> b0 = 238 \<or> b0 = 239) \<and> is_cont b1 \<and> is_cont b2 then 3
      else if b0 = 237 \<and> 128 \<le> b1 \<and> b1 \<le> 159 \<and> is_cont b2 then 3
      else if b0 = 240 \<and> 144 \<le> b1 \<and> b1 \<le> 191 \<and> is_cont b2 \<and> is_cont b3 then 4
      else if 241 \<le> b0 \<and> b0 \<le> 243 \<and> is_cont b1 \<and> is_cont b2 \<and> is_cont b3 then 4
      else if b0 = 244 \<and> 128 \<le> b1 \<and> b1 \<le> 143 \<and> is_cont b2 \<and> is_cont b3 then 4
      else 0)"

definition utf8_encode :: "nat \<Rightarrow> string" where
  "utf8_encode n =
     (if n < 128 then [char_of n]
      else if n < 2048 then [char_of (192 + n div 64), char_of (128 + n mod 64)]
      else if n < 65536 then
        [char_of (224 + n div 4096), char_of (128 + (n div 64) mod 64), char_of (128 + n mod 64)]
      else
        [char_of (240 + n div 262144), char_of (128 + (n div 4096) mod 64),
         char_of (128 + (n div 64) mod 64), char_of (128 + n mod 64)])"

definition replacement_char :: string where
  "replacement_char = [char_of (239::nat), char_of (191::nat), char_of (189::nat)]"

subsection \<open>Scanner\<close>

datatype json =
  JNull
| JBool bool
| JNumber string
| JString string
| JArray "json list"
| JObject "(string \<times> json) list"

datatype token =
  LBrace | RBrace | LBracket | RBracket | Colon | Comma
| TString string | TNumber string | TTrue | TFalse | TNull

text \<open>
  The body of a string literal, before unquoting: raw bytes and the bytes of
  the one-letter escapes, and the code units of \<open>\uXXXX\<close> escapes.
\<close>

datatype str_item = Byte char | U4 nat

fun next_bytes :: "nat \<Rightarrow> str_item list \<Rightarrow> nat list" where
  "next_bytes (Suc n) (Byte c # r) = byte c # next_bytes n r"
| "next_bytes _ _ = []"

definition is_surrogate :: "nat \<Rightarrow> bool" where
  "is_surrogate u = (55296 \<le> u \<and> u < 57344)"

definition surrogate_pair :: "nat \<Rightarrow> nat \<Rightarrow> bool" where
  "surrogate_pair h l = (55296 \<le> h \<and> h < 56320 \<and> 56320 \<le> l \<and> l < 57344)"

fun unquote :: "nat \<Rightarrow> str_item list \<Rightarrow> string" where
  "unquote k [] = []"
| "unquote k (Byte c # r) =
     (if 0 < k then c # unquote (k - 1) r
      else if byte c < 128 then c # unquote 0 r
      else (let n = utf8_len (byte c # next_bytes (Suc (Suc (Suc 0))) r)
            in if n = 0 then replacement_char @ unquote 0 r
               else c # unquote (n - 1) r))"
| "unquote k (U4 h # U4 l # r) =
     (if surrogate_pair h l
      then utf8_encode ((h - 55296) * 1024 + (l - 56320) + 65536) @ unquote 0 r
      else utf8_encode (if is_surrogate h then 65533 else h) @ unquote 0 (U4 l # r))"
| "unquote k (U4 h # r) =
     utf8_encode (if is_surrogate h then 65533 else h) @ unquote 0 r"

definition hex_val :: "char \<Rightarrow> nat option" where
  "hex_val c = map_of
     [(CHR ''0'', 0), (CHR ''1'', 1), (CHR ''2'', 2), (CHR ''3'', 3), (CHR ''4'', 4),
      (CHR ''5'', 5), (CHR ''6'', 6), (CHR ''7'', 7), (CHR ''8'', 8), (CHR ''9'', 9),
      (CHR ''a'', 10), (CHR ''b'', 11), (CHR ''c'', 12), (CHR ''d'', 13), (CHR ''e'', 14),
      (CHR ''f'', 15), (CHR ''A'', 10), (CHR ''B'', 11), (CHR ''C'', 12), (CHR ''D'', 13),
      (CHR ''E'', 14), (CHR ''F'', 15)] c"

definition is_digit :: "char \<Rightarrow> bool" where
  "is_digit c = (c \<in> set ''0123456789'')"

definition is_space :: "char \<Rightarrow> bool" where
  "is_space c = (c = CHR '' '' \<or> c = CHR 0x09 \<or> c = CHR 0x0D \<or> c = CHR 0x0A)"

datatype num_state = NNeg | NZero | NInt | NDot | NFrac | NE | NESign | NExp

fun num_next :: "num_state \<Rightarrow> char \<Rightarrow> num_state option" where
  "num_next NNeg c =
     (if c = CHR ''0'' then Some NZero else if is_digit c then Some NInt else None)"
| "num_next NZero c =
     (if c = CHR ''.'' then Some NDot
      else if c = CHR ''e'' \<or> c = CHR ''E'' then Some NE else None)"
| "num_next NInt c =
     (if is_digit c then Some NInt
      else if c = CHR ''.'' then Some NDot
      else if c = CHR ''e'' \<or> c = CHR ''E'' then Some NE else None)"
| "num_next NDot c = (if is_digit c then Some NFrac else None)"
| "num_next NFrac c =
     (if is_digit c then Some NFrac
      else if c = CHR ''e'' \<or> c = CHR ''E'' then Some NE else None)"
| "num_next NE c =
     (if c = CHR ''+'' \<or> c = CHR ''-'' then Some NESign
      else if is_digit c then Some NExp else None)"
| "num_next NESign c = (if is_digit c then Some NExp else None)"
| "num_next NExp c = (if is_digit c then Some NExp else None)"

fun num_final :: "num_state \<Rightarrow> bool" where
  "num_final NZero = True"
| "num_final NInt = True"
| "num_final NFrac = True"
| "num_final NExp = True"
| "num_final _ = False"

datatype lex_state =
  LStart
| LStr "str_item list"
| LEsc "str_item list"
| LHex "str_item list" "nat list"
| LNum num_state string
| LLit string token

text \<open>Token lists and literal bodies are accumulated in reverse.\<close>

definition start_step :: "token list \<Rightarrow> char \<Rightarrow> (lex_state \<times> token list) option" where
  "start_step toks c =
     (if is_space c then Some (LStart, toks)
      else if c = CHR ''{'' then Some (LStart, LBrace # toks)
      else if c = CHR ''}'' then Some (LStart, RBrace # toks)
      else if c = CHR ''['' then Some (LStart, LBracket # toks)
      else if c = CHR '']'' then Some (LStart, RBracket # toks)
      else if c = CHR '':'' then Some (LStart, Colon # toks)
      else if c = CHR '','' then Some (LStart, Comma # toks)
      else if c = CHR 0x22 then Some (LStr [], toks)
      else if c = CHR ''-'' then Some (LNum NNeg [c], toks)
      else if c = CHR ''0'' then Some (LNum NZero [c], toks)
      else if is_digit c then Some (LNum NInt [c], toks)
      else if c = CHR ''t'' then Some (LLit ''rue'' TTrue, toks)
      else if c = CHR ''f'' then Some (LLit ''alse'' TFalse, toks)
      else if c = CHR ''n'' then Some (LLit ''ull'' TNull, toks)
      else None)"

definition escape_byte :: "char \<Rightarrow> char option" where
  "escape_byte c = map_of
     [(CHR 0x22, CHR 0x22), (CHR 0x5C, CHR 0x5C), (CHR ''/'', CHR ''/''),
      (CHR ''b'', CHR 0x08), (CHR ''f'', CHR 0x0C), (CHR ''n'', CHR 0x0A),
      (CHR ''r'', CHR 0x0D), (CHR ''t'', CHR 0x09)] c"

fun lex_step :: "lex_state \<Rightarrow> token list \<Rightarrow> char \<Rightarrow> (lex_state \<times> token list) option" where
  "lex_step LStart toks c = start_step toks c"
| "lex_step (LStr items) toks c =
     (if c = CHR 0x22 then Some (LStart, TString (unquote 0 (rev items)) # toks)
      else if c = CHR 0x5C then Some (LEsc items, toks)
      else if byte c < 32 then None
      else Some (LStr (Byte c # items), toks))"
| "lex_step (LEsc items) toks c =
     (if c = CHR ''u'' then Some (LHex items [], toks)
      else (case escape_byte c of
              Some b \<Rightarrow> Some (LStr (Byte b # items), toks)
            | None \<Rightarrow> None))"
| "lex_step (LHex items ds) toks c =
     (case hex_val c of
        None \<Rightarrow> None
      | Some d \<Rightarrow>
          (case ds of
             [d1, d2, d3] \<Rightarrow>
               Some (LStr (U4 (((d1 * 16 + d2) * 16 + d3) * 16 + d) # items), toks)
           | _ \<Rightarrow> Some (LHex items (ds @ [d]), toks)))"
| "lex_step (LNum ns acc) toks c =
     (case num_next ns c of
        Some ns' \<Rightarrow> Some (LNum ns' (c # acc), toks)
      | None \<Rightarrow> if num_final ns then start_step (TNumber (rev acc) # toks) c else None)"
| "lex_step (LLit [] tok) toks c = None"
| "lex_step (LLit (r # rs) tok) toks c =
     (if c \<noteq> r then None
      else if rs = [] then Some (LStart, tok # toks)
      else Some (LLit rs tok, toks))"

fun lex_end :: "lex_state \<Rightarrow> token list \<Rightarrow> token list option" where
  "lex_end LStart toks = Some (rev toks)"
| "lex_end (LNum ns acc) toks =
     (if num_final ns then Some (rev (TNumber (rev acc) # toks)) else None)"
| "lex_end _ toks = None"

fun lex_go :: "lex_state \<Rightarrow> token list \<Rightarrow> string \<Rightarrow> token list option" where
  "lex_go st toks [] = lex_end st toks"
| "lex_go st toks (c # cs) =
     (case lex_step st toks c of
        None \<Rightarrow> None
      | Some (st', toks') \<Rightarrow> lex_go st' toks' cs)"

definition scan :: "string \<Rightarrow> token list option" where
  "scan s = lex_go LStart [] s"

subsection \<open>Values\<close>

datatype frame =
  FArr "json list"
| FObj "(string \<times> json) list" "string option"

datatype pmode =
  ExpValue | ExpValueOrClose | ExpKeyOrClose | ExpKey | ExpColon | ExpSep | PDone json

definition maxNestingDepth :: nat where
  "maxNestingDepth = 10000"

fun reduce :: "json \<Rightarrow> frame list \<Rightarrow> (pmode \<times> frame list) option" where
  "reduce v [] = Some (PDone v, [])"
| "reduce v (FArr es # st) = Some (ExpSep, FArr (v # es) # st)"
| "reduce v (FObj ms (Some k) # st) = Some (ExpSep, FObj ((k, v) # ms) None # st)"
| "reduce v (FObj ms None # st) = None"

fun begin_value :: "token \<Rightarrow> frame list \<Rightarrow> (pmode \<times> frame list) option" where
  "begin_value (TString s) st = reduce (JString s) st"
| "begin_value (TNumber n) st = reduce (JNumber n) st"
| "begin_value TTrue st = reduce (JBool True) st"
| "begin_value TFalse st = reduce (JBool False) st"
| "begin_value TNull st = reduce JNull st"
| "begin_value LBracket st =
     (if length st < maxNestingDepth then Some (ExpValueOrClose, FArr [] # st) else None)"
| "begin_value LBrace st =
     (if length st < maxNestingDepth then Some (ExpKeyOrClose, FObj [] None # st) else None)"
| "begin_value _ st = None"

fun begin_key :: "token \<Rightarrow> frame list \<Rightarrow> (pmode \<times> frame list) option" where
  "begin_key (TString k) (FObj ms None # st) = Some (ExpColon, FObj ms (Some k) # st)"
| "begin_key _ _ = None"

fun close_array :: "frame list \<Rightarrow> (pmode \<times> frame list) option" where
  "close_array (FArr es # st) = reduce (JArray (rev es)) st"
| "close_array _ = None"

fun close_object :: "frame list \<Rightarrow> (pmode \<times> frame list) option" where
  "close_object (FObj ms None # st) = reduce (JObject (rev ms)) st"
| "close_object _ = None"

fun parse_step :: "pmode \<Rightarrow> frame list \<Rightarrow> token \<Rightarrow> (pmode \<times> frame list) option" where
  "parse_step ExpValue st tok = begin_value tok st"
| "parse_step ExpValueOrClose st tok =
     (if tok = RBracket then close_array st else begin_value tok st)"
| "parse_step ExpKeyOrClose st tok =
     (if tok = RBrace then close_object st else begin_key tok st)"
| "parse_step ExpKey st tok = begin_key tok st"
| "parse_step ExpColon st tok = (if tok = Colon then Some (ExpValue, st) else None)"
| "parse_step ExpSep (FArr es # st) tok =
     (if tok = Comma then Some (ExpValue, FArr es # st)
      else if tok = RBracket then close_array (FArr es # st) else None)"
| "parse_step ExpSep (FObj ms k # st) tok =
     (if tok = Comma then Some (ExpKey, FObj ms k # st)
      else if tok = RBrace then close_object (FObj ms k # st) else None)"
| "parse_step ExpSep [] tok = None"
| "parse_step (PDone v) st tok = None"

fun parse_go :: "pmode \<Rightarrow> frame list \<Rightarrow> token list \<Rightarrow> json option" where
  "parse_go (PDone v) st [] = Some v"
| "parse_go _ st [] = None"
| "parse_go m st (t # ts) =
     (case parse_step m st t of
        None \<Rightarrow> None
      | Some (m', st') \<Rightarrow> parse_go m' st' ts)"

definition parse_json :: "string \<Rightarrow> json option" where
  "parse_json s = (case scan s of None \<Rightarrow> None | Some toks \<Rightarrow> parse_go ExpValue [] toks)"

subsection \<open>Decoding into the package's types\<close>

text \<open>
  A JSON value that does not fit the Go type it is decoded into gives an
  \<open>UnmarshalTypeError\<close>; the decoder goes on and returns the first such error
  at the end, so the result is that error whenever one occurs.
\<close>

fun json_kind :: "json \<Rightarrow> string" where
  "json_kind JNull = ''null''"
| "json_kind (JBool b) = ''bool''"
| "json_kind (JNumber n) = ''number''"
| "json_kind (JString s) = ''string''"
| "json_kind (JArray es) = ''array''"
| "json_kind (JObject ms) = ''object''"

definition type_error :: "json \<Rightarrow> string \<Rightarrow> string" where
  "type_error v ty = ''json: cannot unmarshal '' @ json_kind v @ '' into Go value of type '' @ ty"

definition syntax_error :: string where
  "syntax_error = ''invalid character or unexpected end of JSON input''"

text \<open>Into a string: a JSON string is stored, null leaves the target as it is.\<close>

fun decode_string :: "json \<Rightarrow> string \<Rightarrow> string + string" where
  "decode_string (JString s) cur = Inr s"
| "decode_string JNull cur = Inr cur"
| "decode_string v cur = Inl (type_error v ''string'')"

fun map_set :: "string \<Rightarrow> string \<Rightarrow> (string \<times> string) list \<Rightarrow> (string \<times> string) list" where
  "map_set k v [] = [(k, v)]"
| "map_set k v ((k', v') # m) = (if k = k' then (k, v) # m else (k', v') # map_set k v m)"

text \<open>
  Into a \<open>map[string]string\<close>: null makes the map nil; an object allocates the
  map if it is nil and stores each member, a fresh empty string being the
  target of every member's value.
\<close>

fun decode_members :: "(string \<times> json) list \<Rightarrow> (string \<times> string) list \<Rightarrow> string + (string \<times> string) list" where
  "decode_members [] m = Inr m"
| "decode_members ((k, v) # ms) m =
     (case decode_string v [] of
        Inl err \<Rightarrow> Inl err
      | Inr s \<Rightarrow> decode_members ms (map_set k s m))"

fun decode_map :: "json \<Rightarrow> gomap \<Rightarrow> string + gomap" where
  "decode_map JNull cur = Inr None"
| "decode_map (JObject ms) cur =
     (case decode_members ms (case cur of None \<Rightarrow> [] | Some m \<Rightarrow> m) of
        Inl err \<Rightarrow> Inl err
      | Inr m \<Rightarrow> Inr (Some m))"
| "decode_map v cur = Inl (type_error v ''map[string]string'')"

text \<open>
  A key selects the field whose name it equals under case folding: ASCII
  letters fold to upper case, and so do U+017F (long s) and U+212A (Kelvin
  sign), the two non-ASCII code points that fold to ASCII letters.
\<close>

definition to_upper :: "char \<Rightarrow> char" where
  "to_upper c = (if 97 \<le> byte c \<and> byte c \<le> 122 then char_of (byte c - 32) else c)"

fun foldName :: "string \<Rightarrow> string" where
  "foldName [] = []"
| "foldName [c] = [to_upper c]"
| "foldName [c1, c2] =
     (if byte c1 = 197 \<and> byte c2 = 191 then ''S''
      else to_upper c1 # foldName [c2])"
| "foldName (c1 # c2 # c3 # r) =
     (if byte c1 = 226 \<and> byte c2 = 132 \<and> byte c3 = 170 then CHR ''K'' # foldName r
      else if byte c1 = 197 \<and> byte c2 = 191 then CHR ''S'' # foldName (c3 # r)
      else to_upper c1 # foldName (c2 # c3 # r))"

text \<open>
  Modelled from the spec: the JSON names of the fields of \<open>Call\<close> and \<open>AskArgs\<close>
  belong to their declarations, which are not among the sources; they are the
  names the specification writes, \<open>tool\<close>, \<open>input\<close> and \<open>message\<close>.
\<close>

definition Call_tool_key :: string where
  "Call_tool_key = ''tool''"

definition Call_input_key :: string where
  "Call_input_key = ''input''"

definition Call_message_key :: string where
  "Call_message_key = ''message''"

definition AskArgs_message_key :: string where
  "AskArgs_message_key = ''message''"

definition zero_Call :: Call where
  "zero_Call = \<lparr>Tool = [], Input = None, Call_Message = []\<rparr>"

definition zero_AskArgs :: AskArgs where
  "zero_AskArgs = \<lparr>Ask_Message = []\<rparr>"

definition decode_Call_field :: "string \<Rightarrow> json \<Rightarrow> Call \<Rightarrow> string + Call" where
  "decode_Call_field k v c =
     (if foldName k = foldName Call_tool_key then
        (case decode_string v (Tool c) of
           Inl err \<Rightarrow> Inl err | Inr s \<Rightarrow> Inr (c\<lparr>Tool := s\<rparr>))
      else if foldName k = foldName Call_input_key then
        (case decode_map v (Input c) of
           Inl err \<Rightarrow> Inl err | Inr m \<Rightarrow> Inr (c\<lparr>Input := m\<rparr>))
      else if foldName k = foldName Call_message_key then
        (case decode_string v (Call_Message c) of
           Inl err \<Rightarrow> Inl err | Inr s \<Rightarrow> Inr (c\<lparr>Call_Message := s\<rparr>))
      else Inr c)"

fun decode_Call_members :: "(string \<times> json) list \<Rightarrow> Call \<Rightarrow> string + Call" where
  "decode_Call_members [] c = Inr c"
| "decode_Call_members ((k, v) # ms) c =
     (case decode_Call_field k v c of
        Inl err \<Rightarrow> Inl err
      | Inr c' \<Rightarrow> decode_Call_members ms c')"

fun decode_Call :: "json \<Rightarrow> Call \<Rightarrow> string + Call" where
  "decode_Call (JObject ms) c = decode_Call_members ms c"
| "decode_Call JNull c = Inr c"
| "decode_Call v c = Inl (type_error v ''Call'')"

definition decode_AskArgs_field :: "string \<Rightarrow> json \<Rightarrow> AskArgs \<Rightarrow> string + AskArgs" where
  "decode_AskArgs_field k v a =
     (if foldName k = foldName AskArgs_message_key then
        (case decode_string v (Ask_Message a) of
           Inl err \<Rightarrow> Inl err | Inr s \<Rightarrow> Inr (a\<lparr>Ask_Message := s\<rparr>))
      else Inr a)"

fun decode_AskArgs_members :: "(string \<times> json) list \<Rightarrow> AskArgs \<Rightarrow> string + AskArgs" where
  "decode_AskArgs_members [] a = Inr a"
| "decode_AskArgs_members ((k, v) # ms) a =
     (case decode_AskArgs_field k v a of
        Inl err \<Rightarrow> Inl err
      | Inr a' \<Rightarrow> decode_AskArgs_members ms a')"

fun decode_AskArgs :: "json \<Rightarrow> AskArgs \<Rightarrow> string + AskArgs" where
  "decode_AskArgs (JObject ms) a = decode_AskArgs_members ms a"
| "decode_AskArgs JNull a = Inr a"
| "decode_AskArgs v a = Inl (type_error v ''AskArgs'')"

text \<open>
  \<open>json.Unmarshal\<close> first checks that the whole input is one JSON value and
  then decodes it into the target, here always a fresh zero value.
\<close>

definition json_Unmarshal_Call :: "string \<Rightarrow> string + Call" where
  "json_Unmarshal_Call data =
     (case parse_json data of
        None \<Rightarrow> Inl syntax_error
      | Some v \<Rightarrow> decode_Call v zero_Call)"

definition json_Unmarshal_AskArgs :: "string \<Rightarrow> string + AskArgs" where
  "json_Unmarshal_AskArgs data =
     (case parse_json data of
        None \<Rightarrow> Inl syntax_error
      | Some v \<Rightarrow> decode_AskArgs v zero_AskArgs)"

definition json_Unmarshal_map :: "string \<Rightarrow> string + gomap" where
  "json_Unmarshal_map data =
     (case parse_json data of
        None \<Rightarrow> Inl syntax_error
      | Some v \<Rightarrow> decode_map v None)"

subsection \<open>Encoding\<close>

definition hex_digit :: "nat \<Rightarrow> char" where
  "hex_digit n = ''0123456789abcdef'' ! (n mod 16)"

definition escape_ascii :: "char \<Rightarrow> string" where
  "escape_ascii c =
     (if c = CHR 0x22 \<or> c = CHR 0x5C then [CHR 0x5C, c]
      else if c = CHR 0x08 then [CHR 0x5C, CHR ''b'']
      else if c = CHR 0x0C then [CHR 0x5C, CHR ''f'']
      else if c = CHR 0x0A then [CHR 0x5C, CHR ''n'']
      else if c = CHR 0x0D then [CHR 0x5C, CHR ''r'']
      else if c = CHR 0x09 then [CHR 0x5C, CHR ''t'']
      else if byte c < 32 \<or> c = CHR ''<'' \<or> c = CHR ''>'' \<or> c = CHR ''&''
        then [CHR 0x5C, CHR ''u'', CHR ''0'', CHR ''0'',
              hex_digit (byte c div 16), hex_digit (byte c mod 16)]
      else [c])"

text \<open>
  \<open>k\<close> counts the bytes still to copy of a well-formed multi-byte sequence.
  Invalid UTF-8 is written as the escape of U+FFFD, and U+2028 and U+2029 are
  escaped.
\<close>

fun escape_string :: "nat \<Rightarrow> string \<Rightarrow> string" where
  "escape_string k [] = []"
| "escape_string (Suc k) (c # cs) = c # escape_string k cs"
| "escape_string 0 (c # cs) =
     (if byte c < 128 then escape_ascii c @ escape_string 0 cs
      else if utf8_len (map byte (c # take 3 cs)) = 0
        then [CHR 0x5C] @ ''ufffd'' @ escape_string 0 cs
      else if map byte (c # take 2 cs) = [226, 128, 168]
        then [CHR 0x5C] @ ''u2028'' @ escape_string 0 (drop 2 cs)
      else if map byte (c # take 2 cs) = [226, 128, 169]
        then [CHR 0x5C] @ ''u2029'' @ escape_string 0 (drop 2 cs)
      else c # escape_string (utf8_len (map byte (c # take 3 cs)) - 1) cs)"

definition quote :: "string \<Rightarrow> string" where
  "quote s = [CHR 0x22] @ escape_string 0 s @ [CHR 0x22]"

fun bytes_less :: "string \<Rightarrow> string \<Rightarrow> bool" where
  "bytes_less xs [] = False"
| "bytes_less [] (y # ys) = True"
| "bytes_less (x # xs) (y # ys) = (byte x < byte y \<or> (x = y \<and> bytes_less xs ys))"

fun insert_entry :: "string \<times> string \<Rightarrow> (string \<times> string) list \<Rightarrow> (string \<times> string) list" where
  "insert_entry e [] = [e]"
| "insert_entry e (e' # es) =
     (if bytes_less (fst e') (fst e) then e' # insert_entry e es else e # e' # es)"

definition sort_entries :: "(string \<times> string) list \<Rightarrow> (string \<times> string) list" where
  "sort_entries m = foldr insert_entry m []"

fun join_commas :: "string list \<Rightarrow> string" where
  "join_commas [] = []"
| "join_commas [x] = x"
| "join_commas (x # y # r) = x @ '','' @ join_commas (y # r)"

text \<open>A nil map is written as null; the entries of a map are written in key order.\<close>

definition json_Marshal_map :: "gomap \<Rightarrow> string + string" where
  "json_Marshal_map m =
     (case m of
        None \<Rightarrow> Inr ''null''
      | Some es \<Rightarrow>
          Inr (''{'' @ join_commas (map (\<lambda>(k, v). quote k @ '':'' @ quote v) (sort_entries es))
               @ ''}''))"

definition json_Marshal_AskArgs :: "AskArgs \<Rightarrow> string + string" where
  "json_Marshal_AskArgs a =
     Inr (''{'' @ quote AskArgs_message_key @ '':'' @ quote (Ask_Message a) @ ''}'')"

definition encoding_json :: json_lib where
  "encoding_json =
     \<lparr>Unmarshal_Call = json_Unmarshal_Call,
      Marshal_map = json_Marshal_map,
      Unmarshal_AskArgs = json_Unmarshal_AskArgs,
      Marshal_AskArgs = json_Marshal_AskArgs\<rparr>"

section \<open>Properties of the message translator\<close>

lemma appendTask_append: "appendTask p ms t = ms @ appendTask p [] t"
  by (simp add: appendTask_def Let_def)

lemma foldl_appendTask: "foldl (appendTask p) ms ts = ms @ concat (map (appendTask p []) ts)"
proof (induction ts arbitrary: ms)
  case Nil
  show ?case by simp
next
  case (Cons t ts)
  have "foldl (appendTask p) ms (t # ts) = foldl (appendTask p) (appendTask p ms t) ts" by simp
  also have "\<dots> = appendTask p ms t @ concat (map (appendTask p []) ts)" by (rule Cons.IH)
  also have "\<dots> = ms @ appendTask p [] t @ concat (map (appendTask p []) ts)"
    using appendTask_append [of p ms t] by simp
  finally show ?case by simp
qed

lemma tasksToMessages_concat:
  "tasksToMessages ts p =
     \<lparr>Role = ChatMessageTypeSystem, Parts = [TextPart p]\<rparr> # concat (map (appendTask p []) ts)"
  by (simp add: tasksToMessages_def foldl_appendTask)

text \<open>
  The conversation for a history is the conversation for the tasks before
  \<open>t\<close>, then the turns of \<open>t\<close> alone, then the turns of the tasks after it (the
  conversation of the rest without its leading system turn).
\<close>

lemma tasksToMessages_split:
  "tasksToMessages (pre @ t # suf) p =
     tasksToMessages pre p @ appendTask p [] t @ tl (tasksToMessages suf p)"
  by (simp add: tasksToMessages_concat)

text \<open>
  C1 (as amended). The conversation is the system turn followed by the turns of
  the tasks, task by task in the order of the history, and the turns of one
  task are: first one human turn carrying the system prompt when its type is
  "input"; then, when its toolCallId is non-empty, exactly two consecutive
  turns, an assistant tool-invocation turn followed by a tool-result turn;
  otherwise, when its type is "ask", exactly one plain assistant turn carrying
  its message; otherwise nothing more. So a task whose type is not "input"
  yields two turns, one turn or none as the claim says, and an "input" task
  yields one turn more. The empty history gives the system turn alone, and a
  task contributes the same turns wherever it stands in the history.
\<close>

theorem tasksToMessages_turns_per_task:
  "tasksToMessages tasks prompt =
     \<lparr>Role = ChatMessageTypeSystem, Parts = [TextPart prompt]\<rparr> #
     concat (map (\<lambda>task.
       (if String (Type task) = ''input''
        then [\<lparr>Role = ChatMessageTypeHuman, Parts = [TextPart prompt]\<rparr>] else []) @
       (if String (ToolCallID task) \<noteq> []
        then [\<lparr>Role = ChatMessageTypeAI,
               Parts = [ToolCallPart \<lparr>Call_ID = String (ToolCallID task), Call_Type = ''function'',
                          FunctionCall = \<lparr>Name = String (Type task),
                                          Arguments = String (Args task)\<rparr>\<rparr>]\<rparr>,
              \<lparr>Role = ChatMessageTypeTool,
               Parts = [ToolCallResponsePart \<lparr>Resp_ToolCallID = String (ToolCallID task),
                          Resp_Name = String (Type task), Content = String (Results task)\<rparr>]\<rparr>]
        else if String (Type task) = ''ask''
        then [\<lparr>Role = ChatMessageTypeAI, Parts = [TextPart (String (Message task))]\<rparr>]
        else [])) tasks) \<and>
   tasksToMessages [] prompt = [\<lparr>Role = ChatMessageTypeSystem, Parts = [TextPart prompt]\<rparr>] \<and>
   tasksToMessages (pre @ task # suf) prompt =
     tasksToMessages pre prompt @
     (if String (Type task) = ''input''
      then [\<lparr>Role = ChatMessageTypeHuman, Parts = [TextPart prompt]\<rparr>] else []) @
     (if String (ToolCallID task) \<noteq> []
      then [\<lparr>Role = ChatMessageTypeAI,
             Parts = [ToolCallPart \<lparr>Call_ID = String (ToolCallID task), Call_Type = ''function'',
                        FunctionCall = \<lparr>Name = String (Type task),
                                        Arguments = String (Args task)\<rparr>\<rparr>]\<rparr>,
            \<lparr>Role = ChatMessageTypeTool,
             Parts = [ToolCallResponsePart \<lparr>Resp_ToolCallID = String (ToolCallID task),
                        Resp_Name = String (Type task), Content = String (Results task)\<rparr>]\<rparr>]
      else if String (Type task) = ''ask''
      then [\<lparr>Role = ChatMessageTypeAI, Parts = [TextPart (String (Message task))]\<rparr>]
      else []) @
     tl (tasksToMessages suf prompt)"
proof (intro conjI)
  have turns: "appendTask prompt [] t =
       (if String (Type t) = ''input''
        then [\<lparr>Role = ChatMessageTypeHuman, Parts = [TextPart prompt]\<rparr>] else []) @
       (if String (ToolCallID t) \<noteq> []
        then [\<lparr>Role = ChatMessageTypeAI,
               Parts = [ToolCallPart \<lparr>Call_ID = String (ToolCallID t), Call_Type = ''function'',
                          FunctionCall = \<lparr>Name = String (Type t),
                                          Arguments = String (Args t)\<rparr>\<rparr>]\<rparr>,
              \<lparr>Role = ChatMessageTypeTool,
               Parts = [ToolCallResponsePart \<lparr>Resp_ToolCallID = String (ToolCallID t),
                          Resp_Name = String (Type t), Content = String (Results t)\<rparr>]\<rparr>]
        else if String (Type t) = ''ask''
        then [\<lparr>Role = ChatMessageTypeAI, Parts = [TextPart (String (Message t))]\<rparr>]
        else [])" for t
    by (simp add: appendTask_def Let_def)
  show "tasksToMessages tasks prompt =
     \<lparr>Role = ChatMessageTypeSystem, Parts = [TextPart prompt]\<rparr> #
     concat (map (\<lambda>task.
       (if String (Type task) = ''input''
        then [\<lparr>Role = ChatMessageTypeHuman, Parts = [TextPart prompt]\<rparr>] else []) @
       (if String (ToolCallID task) \<noteq> []
        then [\<lparr>Role = ChatMessageTypeAI,
               Parts = [ToolCallPart \<lparr>Call_ID = String (ToolCallID task), Call_Type = ''function'',
                          FunctionCall = \<lparr>Name = String (Type task),
                                          Arguments = String (Args task)\<rparr>\<rparr>]\<rparr>,
              \<lparr>Role = ChatMessageTypeTool,
               Parts = [ToolCallResponsePart \<lparr>Resp_ToolCallID = String (ToolCallID task),
                          Resp_Name = String (Type task), Content = String (Results task)\<rparr>]\<rparr>]
        else if String (Type task) = ''ask''
        then [\<lparr>Role = ChatMessageTypeAI, Parts = [TextPart (String (Message task))]\<rparr>]
        else [])) tasks)"
    unfolding tasksToMessages_concat [of tasks prompt] turns [symmetric] ..
  show "tasksToMessages [] prompt = [\<lparr>Role = ChatMessageTypeSystem, Parts = [TextPart prompt]\<rparr>]"
    by (simp add: tasksToMessages_def)
  show "tasksToMessages (pre @ task # suf) prompt =
     tasksToMessages pre prompt @
     (if String (Type task) = ''input''
      then [\<lparr>Role = ChatMessageTypeHuman, Parts = [TextPart prompt]\<rparr>] else []) @
     (if String (ToolCallID task) \<noteq> []
      then [\<lparr>Role = ChatMessageTypeAI,
             Parts = [ToolCallPart \<lparr>Call_ID = String (ToolCallID task), Call_Type = ''function'',
                        FunctionCall = \<lparr>Name = String (Type task),
                                        Arguments = String (Args task)\<rparr>\<rparr>]\<rparr>,
            \<lparr>Role = ChatMessageTypeTool,
             Parts = [ToolCallResponsePart \<lparr>Resp_ToolCallID = String (ToolCallID task),
                        Resp_Name = String (Type task), Content = String (Results task)\<rparr>]\<rparr>]
      else if String (Type task) = ''ask''
      then [\<lparr>Role = ChatMessageTypeAI, Parts = [TextPart (String (Message task))]\<rparr>]
      else []) @
     tl (tasksToMessages suf prompt)"
    unfolding tasksToMessages_split [of pre task suf prompt] turns by simp
qed

text \<open>
  C1 as stated fails: a task of type "input" with an empty toolCallId is
  neither a tool-call task nor an "ask" task, so it should yield no turn, yet
  the conversation for the history holding just that task has a human turn
  after the system turn.
\<close>

theorem tasksToMessages_input_task_counterexample:
  "String (ToolCallID (zero_Task\<lparr>Type := StringToNullString ''input''\<rparr>)) = [] \<and>
   String (Type (zero_Task\<lparr>Type := StringToNullString ''input''\<rparr>)) \<noteq> ''ask'' \<and>
   tasksToMessages [] ''P'' = [\<lparr>Role = ChatMessageTypeSystem, Parts = [TextPart ''P'']\<rparr>] \<and>
   tasksToMessages [zero_Task\<lparr>Type := StringToNullString ''input''\<rparr>] ''P'' =
     [\<lparr>Role = ChatMessageTypeSystem, Parts = [TextPart ''P'']\<rparr>,
      \<lparr>Role = ChatMessageTypeHuman, Parts = [TextPart ''P'']\<rparr>]"
  by (simp add: tasksToMessages_def appendTask_def zero_Task_def zero_NullString_def
      StringToNullString_def)

text \<open>
  C6. For every task of type "input", wherever it stands in the history, the
  translator emits at that place a human turn whose content is the system
  prompt it was given; the task's own message and args do not enter it.
\<close>

theorem tasksToMessages_input_human_turn:
  "String (Type task) = ''input'' \<Longrightarrow>
   \<exists>rest. tasksToMessages (pre @ task # suf) prompt =
     tasksToMessages pre prompt @
     \<lparr>Role = ChatMessageTypeHuman, Parts = [TextPart prompt]\<rparr> # rest"
  unfolding tasksToMessages_split [of pre task suf prompt]
  by (simp add: appendTask_def Let_def)

theorem tasksToMessages_input_human_turn_witness:
  "String (Type (zero_Task\<lparr>Type := StringToNullString ''input'',
                             Message := StringToNullString ''build me a site'',
                             Args := StringToNullString ''{\"query\":\"x\"}''\<rparr>)) = ''input'' \<and>
   (\<exists>rest. tasksToMessages ([] @ zero_Task\<lparr>Type := StringToNullString ''input'',
                             Message := StringToNullString ''build me a site'',
                             Args := StringToNullString ''{\"query\":\"x\"}''\<rparr> # []) ''SYSTEM'' =
     tasksToMessages [] ''SYSTEM'' @
     \<lparr>Role = ChatMessageTypeHuman, Parts = [TextPart ''SYSTEM'']\<rparr> # rest)"
  using tasksToMessages_input_human_turn [of "zero_Task\<lparr>Type := StringToNullString ''input'',
                             Message := StringToNullString ''build me a site'',
                             Args := StringToNullString ''{\"query\":\"x\"}''\<rparr>" "[]" "[]" "''SYSTEM''"]
  by (simp add: StringToNullString_def)

section \<open>Properties of the ask fallback\<close>

text \<open>
  C2. The fallback constructor sets type "ask", args "{}" and the message (the
  explanation, then ". What should I do next?"), but it never assigns the
  status: the field keeps the zero value of the struct literal, so the task is
  not in state "in_progress".
\<close>

theorem defaultAskTask_status_unset:
  "String (Type (defaultAskTask message)) = ''ask'' \<and>
   String (Args (defaultAskTask message)) = ''{}'' \<and>
   String (Message (defaultAskTask message)) = message @ ''. What should I do next?'' \<and>
   Status (defaultAskTask message) = \<lparr>String = [], Valid = False\<rparr> \<and>
   String (Status (defaultAskTask message)) \<noteq> ''in_progress''"
  by (simp add: defaultAskTask_def zero_Task_def zero_NullString_def StringToNullString_def)

section \<open>Properties of the provider factory\<close>

text \<open>
  C10. The factory returns a provider, and no error, exactly for the
  identifiers "openai" and "ollama"; for every other identifier it returns no
  provider but the error "unknown provider: " followed by the identifier. It
  has no effect of its own: for an unknown identifier the state of the world
  is returned as it was given and neither \<open>New\<close> is called, and for a known
  identifier the provider and the state are exactly those of the one call of
  that backend's \<open>New\<close>. With \<open>New\<close> as the specification describes it, the
  state is unchanged for every identifier.
\<close>

theorem ProviderFactory_lookup:
  "((\<exists>p s'. ProviderFactory impls provider s = (Inr p, s')) \<longleftrightarrow>
      provider = ''openai'' \<or> provider = ''ollama'') \<and>
   ProviderFactory impls ''openai'' s =
     (Inr (fst (OpenAIProvider_New impls s)), snd (OpenAIProvider_New impls s)) \<and>
   ProviderFactory impls ''ollama'' s =
     (Inr (fst (OllamaProvider_New impls s)), snd (OllamaProvider_New impls s)) \<and>
   (provider \<noteq> ''openai'' \<and> provider \<noteq> ''ollama'' \<longrightarrow>
      ProviderFactory impls provider s = (Inl (UnknownProvider provider), s) \<and>
      Error (UnknownProvider provider) = ''unknown provider: '' @ provider) \<and>
   ProviderFactory providers ''openai'' w = (Inr OpenAIProvider, w) \<and>
   ProviderFactory providers ''ollama'' w = (Inr OllamaProvider, w) \<and>
   snd (ProviderFactory providers provider w) = w"
  by (simp add: ProviderFactory_def ProviderOpenAI_def ProviderOllama_def providers_def
      split: prod.splits)

theorem ProviderFactory_lookup_witness:
  "''gemini'' \<noteq> ''openai'' \<and> ''gemini'' \<noteq> ''ollama'' \<and>
   ProviderFactory
       \<lparr>OpenAIProvider_New = (\<lambda>n. (''openai client'', Suc n)),
        OllamaProvider_New = (\<lambda>n. (''ollama client'', Suc (Suc n)))\<rparr> ''gemini'' (0::nat) =
     (Inl (UnknownProvider ''gemini''), 0) \<and>
   Error (UnknownProvider ''gemini'') = ''unknown provider: gemini'' \<and>
   ProviderFactory
       \<lparr>OpenAIProvider_New = (\<lambda>n. (''openai client'', Suc n)),
        OllamaProvider_New = (\<lambda>n. (''ollama client'', Suc (Suc n)))\<rparr> ''openai'' (0::nat) =
     (Inr ''openai client'', Suc 0) \<and>
   ProviderFactory
       \<lparr>OpenAIProvider_New = (\<lambda>n. (''openai client'', Suc n)),
        OllamaProvider_New = (\<lambda>n. (''ollama client'', Suc (Suc n)))\<rparr> ''ollama'' (0::nat) =
     (Inr ''ollama client'', Suc (Suc 0)) \<and>
   ProviderFactory providers ''openai'' (0::nat) = (Inr OpenAIProvider, 0) \<and>
   ProviderFactory providers ''ollama'' (0::nat) = (Inr OllamaProvider, 0) \<and>
   snd (ProviderFactory providers ''gemini'' (0::nat)) = 0"
  using ProviderFactory_lookup [of
      "\<lparr>OpenAIProvider_New = (\<lambda>n. (''openai client'', Suc n)),
        OllamaProvider_New = (\<lambda>n. (''ollama client'', Suc (Suc n)))\<rparr>"
      "''gemini''" "0::nat" "0::nat"]
  by simp

section \<open>What the model of encoding/json guarantees\<close>

lemma json_Marshal_map_nonempty: "json_Marshal_map m = Inr s \<Longrightarrow> s \<noteq> []"
  by (cases m) (auto simp: json_Marshal_map_def)

lemma json_Marshal_map_total: "\<exists>s. json_Marshal_map m = Inr s"
  by (cases m) (simp_all add: json_Marshal_map_def)

lemma parse_json_empty: "parse_json [] = None"
  by (simp add: parse_json_def scan_def)

lemma json_Unmarshal_AskArgs_empty: "json_Unmarshal_AskArgs [] = Inl syntax_error"
  by (simp add: json_Unmarshal_AskArgs_def parse_json_empty)

lemma quote_message_key: "quote AskArgs_message_key = ''\"message\"''"
  by code_simp

section \<open>Properties of the tool-call constructor\<close>

lemma json_Marshal_AskArgs_total:
  "json_Marshal_AskArgs a =
     Inr (''{'' @ quote AskArgs_message_key @ '':'' @ quote (Ask_Message a) @ ''}'')"
  by (simp add: json_Marshal_AskArgs_def)

lemma toolToTask_Nil: "toolToTask lib [] = Inl NoChoices"
  by (simp add: toolToTask_def)

lemma toolToTask_no_calls:
  "ToolCalls c = [] \<Longrightarrow> toolToTask lib (c # cs) = Inl NoToolCalls"
  by (simp add: toolToTask_def)

lemma toolToTask_no_name:
  "ToolCalls c = t # ts \<Longrightarrow> Name (FunctionCall t) = [] \<Longrightarrow>
   toolToTask lib (c # cs) = Inl EmptyToolName"
  by (simp add: toolToTask_def)

lemma toolToTask_decode_error:
  "ToolCalls c = t # ts \<Longrightarrow> Name (FunctionCall t) \<noteq> [] \<Longrightarrow>
   Unmarshal_AskArgs lib (Arguments (FunctionCall t)) = Inl e \<Longrightarrow>
   toolToTask lib (c # cs) = Inl (DecodeFailure (UnmarshalArgsFailure e))"
  by (simp add: toolToTask_def extractToolArgs_def)

lemma toolToTask_marshal_error:
  "ToolCalls c = t # ts \<Longrightarrow> Name (FunctionCall t) \<noteq> [] \<Longrightarrow>
   Unmarshal_AskArgs lib (Arguments (FunctionCall t)) = Inr params \<Longrightarrow>
   Marshal_AskArgs lib params = Inl e \<Longrightarrow>
   toolToTask lib (c # cs) = Inl (SerializationFailure e)"
  by (simp add: toolToTask_def extractToolArgs_def)

lemma toolToTask_success:
  "ToolCalls c = t # ts \<Longrightarrow> Name (FunctionCall t) \<noteq> [] \<Longrightarrow>
   Unmarshal_AskArgs lib (Arguments (FunctionCall t)) = Inr params \<Longrightarrow>
   Marshal_AskArgs lib params = Inr args \<Longrightarrow>
   toolToTask lib (c # cs) =
     Inr (zero_Task\<lparr>Type := StringToNullString (Name (FunctionCall t)),
            Args := StringToNullString args,
            Message := StringToNullString
              (if Ask_Message params = [] then Arguments (FunctionCall t)
               else Ask_Message params),
            Status := StringToNullString ''in_progress'',
            ToolCallID := StringToNullString (Call_ID t)\<rparr>)"
  by (simp add: toolToTask_def extractToolArgs_def Let_def)

text \<open>Every run ends in exactly one of the six outcomes.\<close>

lemma toolToTask_outcomes:
  "(choices = [] \<and> toolToTask lib choices = Inl NoChoices) \<or>
   (\<exists>c cs. choices = c # cs \<and> ToolCalls c = [] \<and> toolToTask lib choices = Inl NoToolCalls) \<or>
   (\<exists>c cs t ts. choices = c # cs \<and> ToolCalls c = t # ts \<and> Name (FunctionCall t) = [] \<and>
      toolToTask lib choices = Inl EmptyToolName) \<or>
   (\<exists>c cs t ts e. choices = c # cs \<and> ToolCalls c = t # ts \<and> Name (FunctionCall t) \<noteq> [] \<and>
      Unmarshal_AskArgs lib (Arguments (FunctionCall t)) = Inl e \<and>
      toolToTask lib choices = Inl (DecodeFailure (UnmarshalArgsFailure e))) \<or>
   (\<exists>c cs t ts params e. choices = c # cs \<and> ToolCalls c = t # ts \<and>
      Name (FunctionCall t) \<noteq> [] \<and>
      Unmarshal_AskArgs lib (Arguments (FunctionCall t)) = Inr params \<and>
      Marshal_AskArgs lib params = Inl e \<and>
      toolToTask lib choices = Inl (SerializationFailure e)) \<or>
   (\<exists>c cs t ts params args. choices = c # cs \<and> ToolCalls c = t # ts \<and>
      Name (FunctionCall t) \<noteq> [] \<and>
      Unmarshal_AskArgs lib (Arguments (FunctionCall t)) = Inr params \<and>
      Marshal_AskArgs lib params = Inr args \<and>
      toolToTask lib choices =
        Inr (zero_Task\<lparr>Type := StringToNullString (Name (FunctionCall t)),
            Args := StringToNullString args,
            Message := StringToNullString
              (if Ask_Message params = [] then Arguments (FunctionCall t)
               else Ask_Message params),
            Status := StringToNullString ''in_progress'',
            ToolCallID := StringToNullString (Call_ID t)\<rparr>))"
proof (cases choices)
  case Nil
  then show ?thesis by (simp add: toolToTask_Nil)
next
  case (Cons c cs)
  show ?thesis
  proof (cases "ToolCalls c")
    case Nil
    with Cons show ?thesis by (simp add: toolToTask_no_calls)
  next
    case tc: (Cons t ts)
    show ?thesis
    proof (cases "Name (FunctionCall t) = []")
      case True
      with Cons tc show ?thesis by (simp add: toolToTask_no_name)
    next
      case name: False
      show ?thesis
      proof (cases "Unmarshal_AskArgs lib (Arguments (FunctionCall t))")
        case (Inl e)
        with Cons tc name show ?thesis by (simp add: toolToTask_decode_error)
      next
        case dec: (Inr params)
        show ?thesis
        proof (cases "Marshal_AskArgs lib params")
          case (Inl e)
          with Cons tc name dec show ?thesis by (simp add: toolToTask_marshal_error)
        next
          case (Inr args)
          with Cons tc name dec show ?thesis by (simp add: toolToTask_success)
        qed
      qed
    qed
  qed
qed

lemma toolToTask_first_only:
  "toolToTask lib (c # cs) = toolToTask lib [c\<lparr>ToolCalls := take (Suc 0) (ToolCalls c)\<rparr>]"
  by (cases "ToolCalls c") (simp_all add: toolToTask_def)

lemma toolToTask_Inr:
  "toolToTask lib choices = Inr task \<Longrightarrow>
   \<exists>c cs t ts params args.
     choices = c # cs \<and> ToolCalls c = t # ts \<and> Name (FunctionCall t) \<noteq> [] \<and>
     Unmarshal_AskArgs lib (Arguments (FunctionCall t)) = Inr params \<and>
     Marshal_AskArgs lib params = Inr args \<and>
     task = zero_Task\<lparr>Type := StringToNullString (Name (FunctionCall t)),
            Args := StringToNullString args,
            Message := StringToNullString
              (if Ask_Message params = [] then Arguments (FunctionCall t)
               else Ask_Message params),
            Status := StringToNullString ''in_progress'',
            ToolCallID := StringToNullString (Call_ID t)\<rparr>"
  using toolToTask_outcomes [of choices lib] by simp

text \<open>
  C3. The constructor looks at the first choice and at that choice's first tool
  call only: further choices and further tool calls never change the result.
  Its checks run in the order of the claim, each on what passed the ones
  before it. It fails with NoChoices exactly when the choice list is empty;
  with NoToolCalls exactly when there is a first choice and it has no tool
  call; with EmptyToolName exactly when that tool call's function name is
  empty; with DecodeFailure exactly when the name is not empty and the
  argument blob does not decode against the Ask schema; and it returns a task,
  with no error, in every other case, that is exactly when the name is not
  empty and the blob decodes. (Go's encoder cannot fail on the decoded Ask
  arguments, so the last failure the code provides for never happens.)
\<close>

theorem toolToTask_failure_conditions:
  "(toolToTask (lib\<lparr>Marshal_AskArgs := json_Marshal_AskArgs\<rparr>) choices = Inl NoChoices
      \<longleftrightarrow> choices = []) \<and>
   (toolToTask (lib\<lparr>Marshal_AskArgs := json_Marshal_AskArgs\<rparr>) choices = Inl NoToolCalls
      \<longleftrightarrow> (\<exists>c cs. choices = c # cs \<and> ToolCalls c = [])) \<and>
   (toolToTask (lib\<lparr>Marshal_AskArgs := json_Marshal_AskArgs\<rparr>) choices = Inl EmptyToolName
      \<longleftrightarrow> (\<exists>c cs t ts. choices = c # cs \<and> ToolCalls c = t # ts \<and>
             Name (FunctionCall t) = [])) \<and>
   ((\<exists>err. toolToTask (lib\<lparr>Marshal_AskArgs := json_Marshal_AskArgs\<rparr>) choices =
            Inl (DecodeFailure err))
      \<longleftrightarrow> (\<exists>c cs t ts e. choices = c # cs \<and> ToolCalls c = t # ts \<and>
             Name (FunctionCall t) \<noteq> [] \<and>
             Unmarshal_AskArgs lib (Arguments (FunctionCall t)) = Inl e)) \<and>
   ((\<exists>task. toolToTask (lib\<lparr>Marshal_AskArgs := json_Marshal_AskArgs\<rparr>) choices = Inr task)
      \<longleftrightarrow> (\<exists>c cs t ts params. choices = c # cs \<and> ToolCalls c = t # ts \<and>
             Name (FunctionCall t) \<noteq> [] \<and>
             Unmarshal_AskArgs lib (Arguments (FunctionCall t)) = Inr params)) \<and>
   (\<forall>c cs. toolToTask (lib\<lparr>Marshal_AskArgs := json_Marshal_AskArgs\<rparr>) (c # cs) =
      toolToTask (lib\<lparr>Marshal_AskArgs := json_Marshal_AskArgs\<rparr>)
        [c\<lparr>ToolCalls := take (Suc 0) (ToolCalls c)\<rparr>])"
proof -
  let ?L = "lib\<lparr>Marshal_AskArgs := json_Marshal_AskArgs\<rparr>"
  have out: "(choices = [] \<and> toolToTask ?L choices = Inl NoChoices) \<or>
   (\<exists>c cs. choices = c # cs \<and> ToolCalls c = [] \<and> toolToTask ?L choices = Inl NoToolCalls) \<or>
   (\<exists>c cs t ts. choices = c # cs \<and> ToolCalls c = t # ts \<and> Name (FunctionCall t) = [] \<and>
      toolToTask ?L choices = Inl EmptyToolName) \<or>
   (\<exists>c cs t ts e. choices = c # cs \<and> ToolCalls c = t # ts \<and> Name (FunctionCall t) \<noteq> [] \<and>
      Unmarshal_AskArgs lib (Arguments (FunctionCall t)) = Inl e \<and>
      toolToTask ?L choices = Inl (DecodeFailure (UnmarshalArgsFailure e))) \<or>
   (\<exists>c cs t ts params task. choices = c # cs \<and> ToolCalls c = t # ts \<and>
      Name (FunctionCall t) \<noteq> [] \<and>
      Unmarshal_AskArgs lib (Arguments (FunctionCall t)) = Inr params \<and>
      toolToTask ?L choices = Inr task)"
    using toolToTask_outcomes [of choices ?L]
    by (auto simp: json_Marshal_AskArgs_total)
  have 1: "toolToTask ?L choices = Inl NoChoices \<longleftrightarrow> choices = []"
    using out by auto
  have 2: "toolToTask ?L choices = Inl NoToolCalls
      \<longleftrightarrow> (\<exists>c cs. choices = c # cs \<and> ToolCalls c = [])"
    using out by auto
  have 3: "toolToTask ?L choices = Inl EmptyToolName
      \<longleftrightarrow> (\<exists>c cs t ts. choices = c # cs \<and> ToolCalls c = t # ts \<and>
             Name (FunctionCall t) = [])"
    using out by auto
  have 4: "(\<exists>err. toolToTask ?L choices = Inl (DecodeFailure err))
      \<longleftrightarrow> (\<exists>c cs t ts e. choices = c # cs \<and> ToolCalls c = t # ts \<and>
             Name (FunctionCall t) \<noteq> [] \<and>
             Unmarshal_AskArgs lib (Arguments (FunctionCall t)) = Inl e)"
    using out by auto
  have 5: "(\<exists>task. toolToTask ?L choices = Inr task)
      \<longleftrightarrow> (\<exists>c cs t ts params. choices = c # cs \<and> ToolCalls c = t # ts \<and>
             Name (FunctionCall t) \<noteq> [] \<and>
             Unmarshal_AskArgs lib (Arguments (FunctionCall t)) = Inr params)"
    using out by auto
  have 6: "\<forall>c cs. toolToTask ?L (c # cs) =
      toolToTask ?L [c\<lparr>ToolCalls := take (Suc 0) (ToolCalls c)\<rparr>]"
    using toolToTask_first_only [of ?L] by blast
  from 1 2 3 4 5 6 show ?thesis by (intro conjI)
qed

theorem toolToTask_failure_conditions_witness:
  "toolToTask (encoding_json\<lparr>Marshal_AskArgs := json_Marshal_AskArgs\<rparr>) [] = Inl NoChoices \<and>
   toolToTask (encoding_json\<lparr>Marshal_AskArgs := json_Marshal_AskArgs\<rparr>)
     [\<lparr>Choice_Content = [], StopReason = ''tool_calls'',
       ToolCalls = [\<lparr>Call_ID = ''call_1'', Call_Type = ''function'',
                     FunctionCall = \<lparr>Name = [], Arguments = ''{}''\<rparr>\<rparr>]\<rparr>] = Inl EmptyToolName \<and>
   toolToTask (encoding_json\<lparr>Marshal_AskArgs := json_Marshal_AskArgs\<rparr>)
     [\<lparr>Choice_Content = ''hello'', StopReason = ''stop'', ToolCalls = []\<rparr>] = Inl NoToolCalls"
  using toolToTask_failure_conditions [of encoding_json "[]"]
    toolToTask_failure_conditions [of encoding_json
     "[\<lparr>Choice_Content = [], StopReason = ''tool_calls'',
       ToolCalls = [\<lparr>Call_ID = ''call_1'', Call_Type = ''function'',
                     FunctionCall = \<lparr>Name = [], Arguments = ''{}''\<rparr>\<rparr>]\<rparr>]"]
    toolToTask_failure_conditions [of encoding_json
     "[\<lparr>Choice_Content = ''hello'', StopReason = ''stop'', ToolCalls = []\<rparr>]"]
  by simp

text \<open>
  C5. Whenever the constructor returns a task, its args field is the encoding
  of the Ask arguments decoded from the first tool call's argument blob: the
  JSON object with the single member "message". No other member of the
  model's arguments gets into it; in the example below the arguments carry
  "cmd" and the args field does not.
\<close>

theorem toolToTask_args_only_message:
  "toolToTask (lib\<lparr>Marshal_AskArgs := json_Marshal_AskArgs\<rparr>) choices = Inr task \<Longrightarrow>
   \<exists>c cs t ts params.
     choices = c # cs \<and> ToolCalls c = t # ts \<and>
     Unmarshal_AskArgs lib (Arguments (FunctionCall t)) = Inr params \<and>
     json_Marshal_AskArgs params = Inr (String (Args task)) \<and>
     String (Args task) = ''{\"message\":'' @ quote (Ask_Message params) @ ''}''"
proof -
  let ?L = "lib\<lparr>Marshal_AskArgs := json_Marshal_AskArgs\<rparr>"
  assume run: "toolToTask ?L choices = Inr task"
  from toolToTask_outcomes [of choices ?L] run
  obtain c cs t ts params args where
    ch: "choices = c # cs" and tc: "ToolCalls c = t # ts" and
    dec: "Unmarshal_AskArgs lib (Arguments (FunctionCall t)) = Inr params" and
    enc: "json_Marshal_AskArgs params = Inr args" and
    res: "toolToTask ?L choices =
        Inr (zero_Task\<lparr>Type := StringToNullString (Name (FunctionCall t)),
            Args := StringToNullString args,
            Message := StringToNullString
              (if Ask_Message params = [] then Arguments (FunctionCall t)
               else Ask_Message params),
            Status := StringToNullString ''in_progress'',
            ToolCallID := StringToNullString (Call_ID t)\<rparr>)"
    by auto
  from res run have a: "String (Args task) = args"
    by (auto simp: StringToNullString_def)
  from enc have "args = ''{'' @ quote AskArgs_message_key @ '':'' @ quote (Ask_Message params) @ ''}''"
    by (simp add: json_Marshal_AskArgs_total)
  then have b: "args = ''{\"message\":'' @ quote (Ask_Message params) @ ''}''"
    by (simp add: quote_message_key)
  from ch tc dec enc a b show ?thesis by auto
qed

theorem toolToTask_args_only_message_witness:
  "toolToTask (encoding_json\<lparr>Marshal_AskArgs := json_Marshal_AskArgs\<rparr>)
     [\<lparr>Choice_Content = [], StopReason = ''tool_calls'',
       ToolCalls = [\<lparr>Call_ID = ''call_1'', Call_Type = ''function'',
         FunctionCall = \<lparr>Name = ''terminal'',
           Arguments = ''{\"cmd\":\"ls\",\"message\":\"list files\"}''\<rparr>\<rparr>]\<rparr>] =
     Inr (zero_Task\<lparr>Type := StringToNullString ''terminal'',
            Args := StringToNullString ''{\"message\":\"list files\"}'',
            Message := StringToNullString ''list files'',
            Status := StringToNullString ''in_progress'',
            ToolCallID := StringToNullString ''call_1''\<rparr>) \<and>
   (\<exists>params.
      Unmarshal_AskArgs encoding_json ''{\"cmd\":\"ls\",\"message\":\"list files\"}'' = Inr params \<and>
      ''{\"message\":\"list files\"}'' = ''{\"message\":'' @ quote (Ask_Message params) @ ''}'')"
proof -
  let ?ch = "[\<lparr>Choice_Content = [], StopReason = ''tool_calls'',
       ToolCalls = [\<lparr>Call_ID = ''call_1'', Call_Type = ''function'',
         FunctionCall = \<lparr>Name = ''terminal'',
           Arguments = ''{\"cmd\":\"ls\",\"message\":\"list files\"}''\<rparr>\<rparr>]\<rparr>]"
  let ?task = "zero_Task\<lparr>Type := StringToNullString ''terminal'',
            Args := StringToNullString ''{\"message\":\"list files\"}'',
            Message := StringToNullString ''list files'',
            Status := StringToNullString ''in_progress'',
            ToolCallID := StringToNullString ''call_1''\<rparr>"
  have run: "toolToTask (encoding_json\<lparr>Marshal_AskArgs := json_Marshal_AskArgs\<rparr>) ?ch = Inr ?task"
    by code_simp
  from toolToTask_args_only_message [OF run]
  have "\<exists>params.
      Unmarshal_AskArgs encoding_json ''{\"cmd\":\"ls\",\"message\":\"list files\"}'' = Inr params \<and>
      ''{\"message\":\"list files\"}'' = ''{\"message\":'' @ quote (Ask_Message params) @ ''}''"
    by (auto simp: StringToNullString_def)
  with run show ?thesis by (intro conjI)
qed

section \<open>Properties of the call parser\<close>

text \<open>
  C7. The parser returns no call exactly when decoding the text fails or the
  decoded call has an empty tool field; so every call it returns is the
  decoded one and has a non-empty tool field.
\<close>

theorem unmarshalCall_fails_iff:
  "(unmarshalCall lib input = None \<longleftrightarrow>
      (\<exists>err. Unmarshal_Call lib input = Inl err) \<or>
      (\<exists>c. Unmarshal_Call lib input = Inr c \<and> Tool c = [])) \<and>
   (\<forall>c. unmarshalCall lib input = Some c \<longrightarrow>
      Unmarshal_Call lib input = Inr c \<and> Tool c \<noteq> [])"
  by (cases "Unmarshal_Call lib input") (auto simp: unmarshalCall_def)

theorem unmarshalCall_fails_iff_witness:
  "unmarshalCall encoding_json ''{\"tool\":\"terminal\",\"input\":{\"cmd\":\"ls\"}}'' =
     Some \<lparr>Tool = ''terminal'', Input = Some [(''cmd'', ''ls'')], Call_Message = []\<rparr> \<and>
   Unmarshal_Call encoding_json ''{\"tool\":\"terminal\",\"input\":{\"cmd\":\"ls\"}}'' =
     Inr \<lparr>Tool = ''terminal'', Input = Some [(''cmd'', ''ls'')], Call_Message = []\<rparr> \<and>
   Tool \<lparr>Tool = ''terminal'', Input = Some [(''cmd'', ''ls'')], Call_Message = []\<rparr> \<noteq> [] \<and>
   Unmarshal_Call encoding_json ''{\"message\":\"hi\"}'' =
     Inr \<lparr>Tool = [], Input = None, Call_Message = ''hi''\<rparr> \<and>
   unmarshalCall encoding_json ''{\"message\":\"hi\"}'' = None \<and>
   Unmarshal_Call encoding_json ''run ls'' = Inl syntax_error \<and>
   unmarshalCall encoding_json ''run ls'' = None"
proof -
  have a: "unmarshalCall encoding_json ''{\"tool\":\"terminal\",\"input\":{\"cmd\":\"ls\"}}'' =
     Some \<lparr>Tool = ''terminal'', Input = Some [(''cmd'', ''ls'')], Call_Message = []\<rparr>"
    by code_simp
  have b: "Unmarshal_Call encoding_json ''{\"message\":\"hi\"}'' =
     Inr \<lparr>Tool = [], Input = None, Call_Message = ''hi''\<rparr>"
    by code_simp
  have c: "Unmarshal_Call encoding_json ''run ls'' = Inl syntax_error"
    by code_simp
  from a unmarshalCall_fails_iff [of encoding_json
      "''{\"tool\":\"terminal\",\"input\":{\"cmd\":\"ls\"}}''"]
  have a': "Unmarshal_Call encoding_json ''{\"tool\":\"terminal\",\"input\":{\"cmd\":\"ls\"}}'' =
     Inr \<lparr>Tool = ''terminal'', Input = Some [(''cmd'', ''ls'')], Call_Message = []\<rparr> \<and>
     Tool \<lparr>Tool = ''terminal'', Input = Some [(''cmd'', ''ls'')], Call_Message = []\<rparr> \<noteq> []"
    by blast
  from b unmarshalCall_fails_iff [of encoding_json "''{\"message\":\"hi\"}''"]
  have b': "unmarshalCall encoding_json ''{\"message\":\"hi\"}'' = None"
    by simp
  from c unmarshalCall_fails_iff [of encoding_json "''run ls''"]
  have c': "unmarshalCall encoding_json ''run ls'' = None"
    by simp
  from a a' b b' c c' show ?thesis by (intro conjI) simp_all
qed

section \<open>Properties of the embedded-text constructor\<close>

lemma textToTask_marshalled:
  "unmarshalCall lib text = Some c \<Longrightarrow> Marshal_map lib (Input c) = Inr arg \<Longrightarrow>
   textToTask lib text =
     Inr (zero_Task\<lparr>Type := StringToNullString (Tool c),
            Args := StringToNullString arg,
            Message := StringToNullString (if Call_Message c = [] then arg else Call_Message c),
            Status := StringToNullString ''in_progress''\<rparr>)"
  by (simp add: textToTask_def Let_def)

lemma textToTask_fallback:
  "unmarshalCall lib text = Some c \<Longrightarrow> Marshal_map lib (Input c) = Inl err \<Longrightarrow>
   textToTask lib text =
     Inr (defaultAskTask ''There was an error running the terminal command'')"
  by (simp add: textToTask_def Let_def)

lemma textToTask_parse_failure:
  "unmarshalCall lib text = None \<Longrightarrow> textToTask lib text = Inl (ParseFailure text)"
  by (simp add: textToTask_def)

text \<open>
  C4. For a text whose embedded call parses: when the call's input map
  serializes, the constructor returns a task whose type is the call's tool,
  whose args is the serialized input, whose message is the call's message or,
  when that is empty, the serialized args, and whose toolCallId is absent;
  when serializing the input fails, it returns, not an error, but the ask
  fallback for "There was an error running the terminal command".
\<close>

theorem textToTask_parsed_call:
  "unmarshalCall lib text = Some c \<Longrightarrow>
   (\<forall>arg. Marshal_map lib (Input c) = Inr arg \<longrightarrow>
      (\<exists>task. textToTask lib text = Inr task \<and>
         String (Type task) = Tool c \<and>
         String (Args task) = arg \<and>
         String (Message task) = (if Call_Message c = [] then arg else Call_Message c) \<and>
         ToolCallID task = zero_NullString)) \<and>
   (\<forall>err. Marshal_map lib (Input c) = Inl err \<longrightarrow>
      textToTask lib text =
        Inr (defaultAskTask ''There was an error running the terminal command''))"
proof (intro conjI allI impI)
  fix arg
  assume "unmarshalCall lib text = Some c" and "Marshal_map lib (Input c) = Inr arg"
  then have "textToTask lib text =
     Inr (zero_Task\<lparr>Type := StringToNullString (Tool c),
            Args := StringToNullString arg,
            Message := StringToNullString (if Call_Message c = [] then arg else Call_Message c),
            Status := StringToNullString ''in_progress''\<rparr>)"
    by (rule textToTask_marshalled)
  then show "\<exists>task. textToTask lib text = Inr task \<and>
         String (Type task) = Tool c \<and>
         String (Args task) = arg \<and>
         String (Message task) = (if Call_Message c = [] then arg else Call_Message c) \<and>
         ToolCallID task = zero_NullString"
    by (simp add: StringToNullString_def zero_Task_def)
next
  fix err
  assume "unmarshalCall lib text = Some c" and "Marshal_map lib (Input c) = Inl err"
  then show "textToTask lib text =
        Inr (defaultAskTask ''There was an error running the terminal command'')"
    by (rule textToTask_fallback)
qed

theorem textToTask_parsed_call_witness:
  "unmarshalCall encoding_json ''{\"tool\":\"terminal\",\"input\":{\"cmd\":\"ls\"}}'' =
     Some \<lparr>Tool = ''terminal'', Input = Some [(''cmd'', ''ls'')], Call_Message = []\<rparr> \<and>
   Marshal_map encoding_json (Some [(''cmd'', ''ls'')]) = Inr ''{\"cmd\":\"ls\"}'' \<and>
   (\<exists>task. textToTask encoding_json ''{\"tool\":\"terminal\",\"input\":{\"cmd\":\"ls\"}}'' = Inr task \<and>
      String (Type task) = ''terminal'' \<and>
      String (Args task) = ''{\"cmd\":\"ls\"}'' \<and>
      String (Message task) = ''{\"cmd\":\"ls\"}'' \<and>
      ToolCallID task = zero_NullString) \<and>
   unmarshalCall (encoding_json\<lparr>Marshal_map := \<lambda>m. Inl ''json: unsupported value''\<rparr>)
       ''{\"tool\":\"terminal\",\"input\":{\"cmd\":\"ls\"}}'' =
     Some \<lparr>Tool = ''terminal'', Input = Some [(''cmd'', ''ls'')], Call_Message = []\<rparr> \<and>
   textToTask (encoding_json\<lparr>Marshal_map := \<lambda>m. Inl ''json: unsupported value''\<rparr>)
       ''{\"tool\":\"terminal\",\"input\":{\"cmd\":\"ls\"}}'' =
     Inr (defaultAskTask ''There was an error running the terminal command'')"
proof -
  let ?T = "''{\"tool\":\"terminal\",\"input\":{\"cmd\":\"ls\"}}''"
  let ?c = "\<lparr>Tool = ''terminal'', Input = Some [(''cmd'', ''ls'')], Call_Message = []\<rparr>"
  let ?B = "encoding_json\<lparr>Marshal_map := \<lambda>m. Inl ''json: unsupported value''\<rparr>"
  have a: "unmarshalCall encoding_json ?T = Some ?c"
    by code_simp
  have m: "Marshal_map encoding_json (Some [(''cmd'', ''ls'')]) = Inr ''{\"cmd\":\"ls\"}''"
    by code_simp
  have b: "unmarshalCall ?B ?T = Some ?c"
    using a by (simp add: unmarshalCall_def)
  have good: "\<exists>task. textToTask encoding_json ?T = Inr task \<and>
      String (Type task) = ''terminal'' \<and>
      String (Args task) = ''{\"cmd\":\"ls\"}'' \<and>
      String (Message task) = ''{\"cmd\":\"ls\"}'' \<and>
      ToolCallID task = zero_NullString"
    using textToTask_parsed_call [OF a] m by simp
  have bad: "textToTask ?B ?T =
     Inr (defaultAskTask ''There was an error running the terminal command'')"
    using textToTask_parsed_call [OF b] by simp
  from a m good b bad show ?thesis by (intro conjI)
qed

text \<open>
  C8. Round trip: for a text that decodes to a call with the input map
  {"cmd":"ls"}, the constructor returns a task whose args field is the text
  {"cmd":"ls"}, and decoding that field as a JSON map of strings gives the
  map {"cmd":"ls"} again, exactly.
\<close>

theorem textToTask_args_roundtrip:
  "Unmarshal_Call lib text = Inr c \<Longrightarrow> Tool c \<noteq> [] \<Longrightarrow>
   Input c = Some [(''cmd'', ''ls'')] \<Longrightarrow>
   \<exists>task. textToTask (lib\<lparr>Marshal_map := json_Marshal_map\<rparr>) text = Inr task \<and>
     String (Args task) = ''{\"cmd\":\"ls\"}'' \<and>
     json_Unmarshal_map (String (Args task)) = Inr (Some [(''cmd'', ''ls'')])"
proof -
  let ?L = "lib\<lparr>Marshal_map := json_Marshal_map\<rparr>"
  assume dec: "Unmarshal_Call lib text = Inr c" and tool: "Tool c \<noteq> []"
    and inp: "Input c = Some [(''cmd'', ''ls'')]"
  have enc: "json_Marshal_map (Some [(''cmd'', ''ls'')]) = Inr ''{\"cmd\":\"ls\"}''"
    by code_simp
  have again: "json_Unmarshal_map ''{\"cmd\":\"ls\"}'' = Inr (Some [(''cmd'', ''ls'')])"
    by code_simp
  from dec tool have "unmarshalCall ?L text = Some c"
    by (simp add: unmarshalCall_def)
  moreover from inp enc have "Marshal_map ?L (Input c) = Inr ''{\"cmd\":\"ls\"}''"
    by simp
  ultimately have "textToTask ?L text =
     Inr (zero_Task\<lparr>Type := StringToNullString (Tool c),
            Args := StringToNullString ''{\"cmd\":\"ls\"}'',
            Message := StringToNullString
              (if Call_Message c = [] then ''{\"cmd\":\"ls\"}'' else Call_Message c),
            Status := StringToNullString ''in_progress''\<rparr>)"
    by (rule textToTask_marshalled)
  with again show ?thesis by (simp add: StringToNullString_def)
qed

theorem textToTask_args_roundtrip_witness:
  "Unmarshal_Call encoding_json
       ''{\"tool\":\"terminal\",\"input\":{\"cmd\":\"ls\"},\"message\":\"list files\"}'' =
     Inr \<lparr>Tool = ''terminal'', Input = Some [(''cmd'', ''ls'')], Call_Message = ''list files''\<rparr> \<and>
   (\<exists>task. textToTask encoding_json
       ''{\"tool\":\"terminal\",\"input\":{\"cmd\":\"ls\"},\"message\":\"list files\"}'' = Inr task \<and>
     String (Args task) = ''{\"cmd\":\"ls\"}'' \<and>
     json_Unmarshal_map (String (Args task)) = Inr (Some [(''cmd'', ''ls'')]))"
proof -
  let ?T = "''{\"tool\":\"terminal\",\"input\":{\"cmd\":\"ls\"},\"message\":\"list files\"}''"
  let ?c = "\<lparr>Tool = ''terminal'', Input = Some [(''cmd'', ''ls'')], Call_Message = ''list files''\<rparr>"
  have dec: "Unmarshal_Call encoding_json ?T = Inr ?c"
    by code_simp
  have same: "encoding_json\<lparr>Marshal_map := json_Marshal_map\<rparr> = encoding_json"
    by (simp add: encoding_json_def)
  have "\<exists>task. textToTask (encoding_json\<lparr>Marshal_map := json_Marshal_map\<rparr>) ?T = Inr task \<and>
     String (Args task) = ''{\"cmd\":\"ls\"}'' \<and>
     json_Unmarshal_map (String (Args task)) = Inr (Some [(''cmd'', ''ls'')])"
    using textToTask_args_roundtrip [OF dec] by simp
  with dec show ?thesis unfolding same by (intro conjI)
qed

section \<open>The message of a constructed task\<close>

text \<open>
  C9. A task returned by any of the three construction paths has a non-empty
  message. The embedded-text path takes the call's message and, when that is
  empty, the serialized args, which Go's encoder never leaves empty. The
  tool-call path takes the decoded message and, when that is empty, the raw
  argument string, which is not empty because it decoded. The ask fallback
  ends its message with ". What should I do next?".
\<close>

theorem constructed_message_nonempty:
  "(\<forall>task. textToTask (lib\<lparr>Marshal_map := json_Marshal_map\<rparr>) text = Inr task \<longrightarrow>
      String (Message task) \<noteq> [] \<and>
      (\<exists>c. unmarshalCall lib text = Some c \<and>
         String (Message task) =
           (if Call_Message c = [] then String (Args task) else Call_Message c))) \<and>
   (\<forall>task. toolToTask (lib\<lparr>Unmarshal_AskArgs := json_Unmarshal_AskArgs\<rparr>) choices = Inr task \<longrightarrow>
      String (Message task) \<noteq> [] \<and>
      (\<exists>c cs t ts params. choices = c # cs \<and> ToolCalls c = t # ts \<and>
         json_Unmarshal_AskArgs (Arguments (FunctionCall t)) = Inr params \<and>
         String (Message task) =
           (if Ask_Message params = [] then Arguments (FunctionCall t)
            else Ask_Message params))) \<and>
   String (Message (defaultAskTask message)) = message @ ''. What should I do next?'' \<and>
   String (Message (defaultAskTask message)) \<noteq> []"
proof -
  let ?L = "lib\<lparr>Marshal_map := json_Marshal_map\<rparr>"
  let ?M = "lib\<lparr>Unmarshal_AskArgs := json_Unmarshal_AskArgs\<rparr>"
  have text_path: "\<forall>task. textToTask ?L text = Inr task \<longrightarrow>
      String (Message task) \<noteq> [] \<and>
      (\<exists>c. unmarshalCall lib text = Some c \<and>
         String (Message task) =
           (if Call_Message c = [] then String (Args task) else Call_Message c))"
  proof (intro allI impI)
    fix task
    assume run: "textToTask ?L text = Inr task"
    show "String (Message task) \<noteq> [] \<and>
      (\<exists>c. unmarshalCall lib text = Some c \<and>
         String (Message task) =
           (if Call_Message c = [] then String (Args task) else Call_Message c))"
    proof (cases "unmarshalCall ?L text")
      case None
      with run show ?thesis by (simp add: textToTask_parse_failure)
    next
      case (Some c)
      then have orig: "unmarshalCall lib text = Some c"
        by (simp add: unmarshalCall_def)
      obtain arg where enc: "Marshal_map ?L (Input c) = Inr arg"
        using json_Marshal_map_total [of "Input c"] by auto
      then have ne: "arg \<noteq> []" by (auto dest: json_Marshal_map_nonempty)
      from run textToTask_marshalled [OF Some enc]
      have task: "task = zero_Task\<lparr>Type := StringToNullString (Tool c),
            Args := StringToNullString arg,
            Message := StringToNullString (if Call_Message c = [] then arg else Call_Message c),
            Status := StringToNullString ''in_progress''\<rparr>"
        by simp
      have a: "String (Args task) = arg"
        unfolding task by (simp add: StringToNullString_def)
      have m: "String (Message task) = (if Call_Message c = [] then arg else Call_Message c)"
        unfolding task by (simp add: StringToNullString_def)
      from m ne have "String (Message task) \<noteq> []" by (simp split: if_splits)
      moreover from m a have "String (Message task) =
           (if Call_Message c = [] then String (Args task) else Call_Message c)" by simp
      ultimately show ?thesis using orig by simp
    qed
  qed
  have tool_path: "\<forall>task. toolToTask ?M choices = Inr task \<longrightarrow>
      String (Message task) \<noteq> [] \<and>
      (\<exists>c cs t ts params. choices = c # cs \<and> ToolCalls c = t # ts \<and>
         json_Unmarshal_AskArgs (Arguments (FunctionCall t)) = Inr params \<and>
         String (Message task) =
           (if Ask_Message params = [] then Arguments (FunctionCall t)
            else Ask_Message params))"
  proof (intro allI impI)
    fix task
    assume run: "toolToTask ?M choices = Inr task"
    from toolToTask_Inr [OF run]
    obtain c cs t ts params args where
      ch: "choices = c # cs" and tc: "ToolCalls c = t # ts" and
      dec: "Unmarshal_AskArgs ?M (Arguments (FunctionCall t)) = Inr params" and
      task: "task = zero_Task\<lparr>Type := StringToNullString (Name (FunctionCall t)),
            Args := StringToNullString args,
            Message := StringToNullString
              (if Ask_Message params = [] then Arguments (FunctionCall t)
               else Ask_Message params),
            Status := StringToNullString ''in_progress'',
            ToolCallID := StringToNullString (Call_ID t)\<rparr>"
      by blast
    from dec have dec': "json_Unmarshal_AskArgs (Arguments (FunctionCall t)) = Inr params"
      by simp
    have m: "String (Message task) =
        (if Ask_Message params = [] then Arguments (FunctionCall t) else Ask_Message params)"
      unfolding task by (simp add: StringToNullString_def)
    from dec' have "Arguments (FunctionCall t) \<noteq> []"
      by (auto simp: json_Unmarshal_AskArgs_empty)
    with m have ne: "String (Message task) \<noteq> []" by (simp split: if_splits)
    from ch tc dec' m have "\<exists>c cs t ts params. choices = c # cs \<and> ToolCalls c = t # ts \<and>
         json_Unmarshal_AskArgs (Arguments (FunctionCall t)) = Inr params \<and>
         String (Message task) =
           (if Ask_Message params = [] then Arguments (FunctionCall t)
            else Ask_Message params)"
      by (intro exI conjI)
    with ne show "String (Message task) \<noteq> [] \<and>
      (\<exists>c cs t ts params. choices = c # cs \<and> ToolCalls c = t # ts \<and>
         json_Unmarshal_AskArgs (Arguments (FunctionCall t)) = Inr params \<and>
         String (Message task) =
           (if Ask_Message params = [] then Arguments (FunctionCall t)
            else Ask_Message params))"
      by (rule conjI)
  qed
  have ask: "String (Message (defaultAskTask message)) = message @ ''. What should I do next?''"
    by (simp add: defaultAskTask_def)
  then have ask_ne: "String (Message (defaultAskTask message)) \<noteq> []"
    by simp
  from text_path tool_path ask ask_ne show ?thesis by (intro conjI)
qed

theorem constructed_message_nonempty_witness:
  "textToTask (encoding_json\<lparr>Marshal_map := json_Marshal_map\<rparr>)
       ''{\"tool\":\"terminal\",\"input\":{\"cmd\":\"ls\"},\"message\":\"\"}'' =
     Inr (zero_Task\<lparr>Type := StringToNullString ''terminal'',
            Args := StringToNullString ''{\"cmd\":\"ls\"}'',
            Message := StringToNullString ''{\"cmd\":\"ls\"}'',
            Status := StringToNullString ''in_progress''\<rparr>) \<and>
   String (Message (zero_Task\<lparr>Type := StringToNullString ''terminal'',
            Args := StringToNullString ''{\"cmd\":\"ls\"}'',
            Message := StringToNullString ''{\"cmd\":\"ls\"}'',
            Status := StringToNullString ''in_progress''\<rparr>)) \<noteq> [] \<and>
   toolToTask (encoding_json\<lparr>Unmarshal_AskArgs := json_Unmarshal_AskArgs\<rparr>)
     [\<lparr>Choice_Content = [], StopReason = ''tool_calls'',
       ToolCalls = [\<lparr>Call_ID = ''call_1'', Call_Type = ''function'',
         FunctionCall = \<lparr>Name = ''terminal'', Arguments = ''{\"cmd\":\"ls\"}''\<rparr>\<rparr>]\<rparr>] =
     Inr (zero_Task\<lparr>Type := StringToNullString ''terminal'',
            Args := StringToNullString ''{\"message\":\"\"}'',
            Message := StringToNullString ''{\"cmd\":\"ls\"}'',
            Status := StringToNullString ''in_progress'',
            ToolCallID := StringToNullString ''call_1''\<rparr>) \<and>
   String (Message (zero_Task\<lparr>Type := StringToNullString ''terminal'',
            Args := StringToNullString ''{\"message\":\"\"}'',
            Message := StringToNullString ''{\"cmd\":\"ls\"}'',
            Status := StringToNullString ''in_progress'',
            ToolCallID := StringToNullString ''call_1''\<rparr>)) \<noteq> [] \<and>
   String (Message (defaultAskTask [])) \<noteq> []"
proof -
  let ?T = "''{\"tool\":\"terminal\",\"input\":{\"cmd\":\"ls\"},\"message\":\"\"}''"
  let ?t1 = "zero_Task\<lparr>Type := StringToNullString ''terminal'',
            Args := StringToNullString ''{\"cmd\":\"ls\"}'',
            Message := StringToNullString ''{\"cmd\":\"ls\"}'',
            Status := StringToNullString ''in_progress''\<rparr>"
  let ?ch = "[\<lparr>Choice_Content = [], StopReason = ''tool_calls'',
       ToolCalls = [\<lparr>Call_ID = ''call_1'', Call_Type = ''function'',
         FunctionCall = \<lparr>Name = ''terminal'', Arguments = ''{\"cmd\":\"ls\"}''\<rparr>\<rparr>]\<rparr>]"
  let ?t2 = "zero_Task\<lparr>Type := StringToNullString ''terminal'',
            Args := StringToNullString ''{\"message\":\"\"}'',
            Message := StringToNullString ''{\"cmd\":\"ls\"}'',
            Status := StringToNullString ''in_progress'',
            ToolCallID := StringToNullString ''call_1''\<rparr>"
  have r1: "textToTask (encoding_json\<lparr>Marshal_map := json_Marshal_map\<rparr>) ?T = Inr ?t1"
    by code_simp
  have r2: "toolToTask (encoding_json\<lparr>Unmarshal_AskArgs := json_Unmarshal_AskArgs\<rparr>) ?ch = Inr ?t2"
    by code_simp
  note inst = constructed_message_nonempty [of encoding_json ?T ?ch "[]"]
  from inst r1 have n1: "String (Message ?t1) \<noteq> []" by blast
  from inst r2 have n2: "String (Message ?t2) \<noteq> []" by blast
  from inst have n3: "String (Message (defaultAskTask [])) \<noteq> []" by blast
  from r1 n1 r2 n2 n3 show ?thesis by (intro conjI)
qed

end
